theory Spec2Isabelle
  imports Complex_Main "HOL-Library.Multiset"
begin

section \<open>Data model\<close>

text \<open>
  The interfaces \<open>PoolInfo\<close> and \<open>PositionInfo\<close> as the services and their tests
  use them (\<open>src/__tests__/monitor.test.ts\<close>).  Ticks are integers; the liquidity
  string of the source holds a non-negative integer and is represented by its value.
  Field names that two interfaces share are prefixed for the position.
\<close>

record poolInfo =
  poolAddress :: string
  currentTickIndex :: int
  currentSqrtPrice :: string
  coinTypeA :: string
  coinTypeB :: string
  tickSpacing :: int

record positionInfo =
  positionId :: string
  posPoolAddress :: string
  tickLower :: int
  tickUpper :: int
  liquidity :: int
  tokenA :: string
  tokenB :: string
  inRange :: bool

text \<open>
  The fields of \<open>BotConfig\<close> (\<open>src/config.ts\<close>) that the modelled services read.
  \<open>rebalanceThreshold\<close> is a fraction, kept as an exact rational; the amount strings
  are represented by the integers they spell.
\<close>

record botConfig =
  checkInterval :: nat
  rebalanceThreshold :: rat
  cfgPoolAddress :: string
  cfgPositionId :: "string option"
  lowerTick :: "int option"
  upperTick :: "int option"
  rangeWidth :: "int option"
  tokenAAmount :: "int option"
  tokenBAmount :: "int option"
  gasBudget :: nat

record range =
  lower :: int
  upper :: int

section \<open>Position monitor\<close>

datatype configError = InvalidConfiguration

text \<open>
  Modelled from the spec: \<open>PositionMonitorService.calculateOptimalRange\<close>
  (\<open>src/services/monitor.ts\<close> is not among the sources; only its tests are).
  Without a configured width the range is one tick-spacing unit wide and anchored at
  the aligned tick at or below the current tick.  With a width \<open>W\<close> the bounds are
  \<open>floor((t - W/2)/s) * s\<close> and \<open>ceil((t + W/2)/s) * s\<close>; the halves are kept exact
  by doubling numerator and denominator.  A tick spacing that is not positive is
  rejected.
\<close>

definition calculateOptimalRange :: "botConfig \<Rightarrow> int \<Rightarrow> int \<Rightarrow> configError + range" where
  "calculateOptimalRange cfg currentTick spacing =
     (if spacing \<le> 0 then Inl InvalidConfiguration
      else case rangeWidth cfg of
        None \<Rightarrow>
          (let lo = (currentTick div spacing) * spacing
           in Inr \<lparr>lower = lo, upper = lo + spacing\<rparr>)
      | Some w \<Rightarrow>
          Inr \<lparr>lower = ((2 * currentTick - w) div (2 * spacing)) * spacing,
               upper = (- ((- (2 * currentTick + w)) div (2 * spacing))) * spacing\<rparr>)"

text \<open>
  Modelled from the spec: \<open>PositionMonitorService.isPositionInRange\<close>
  (\<open>src/services/monitor.ts\<close> is not among the sources).  Membership is inclusive at
  both bounds.
\<close>

definition isPositionInRange :: "int \<Rightarrow> int \<Rightarrow> int \<Rightarrow> bool" where
  "isPositionInRange lo hi currentTick = (lo \<le> currentTick \<and> currentTick \<le> hi)"

text \<open>
  Modelled from the spec: \<open>PositionMonitorService.shouldRebalance\<close>
  (\<open>src/services/monitor.ts\<close> is not among the sources).  The stored in-range flag
  decides first; a position flagged in range is rebalanced when the current tick is
  closer than \<open>rebalanceThreshold * (upper - lower)\<close> to either bound.
\<close>

definition shouldRebalance :: "botConfig \<Rightarrow> positionInfo \<Rightarrow> poolInfo \<Rightarrow> bool" where
  "shouldRebalance cfg position pool =
     (if \<not> inRange position then True
      else
        (let margin = rebalanceThreshold cfg * of_int (tickUpper position - tickLower position)
         in of_int (currentTickIndex pool - tickLower position) < margin
            \<or> of_int (tickUpper position - currentTickIndex pool) < margin))"


section \<open>Ledger and protocol client\<close>

text \<open>
  A value thrown by a call: an \<open>Error\<close> object with its message, or any other value
  with its string form (the services test \<open>error instanceof Error\<close>).
\<close>

datatype thrown = Error string | NonError string

text \<open>
  The part of a transaction response that the services read:
  \<open>result.digest\<close>, \<open>result.effects?.status?.status\<close> and
  \<open>result.effects?.status?.error\<close>.
\<close>

record execResult =
  digest :: string
  effectsStatus :: "string option"
  effectsError :: "string option"

record coin =
  coinObjectId :: string
  balance :: int

text \<open>
  The transactions the services build: remove liquidity (pool, position, liquidity),
  open position (pool, lower tick, upper tick), add liquidity with fixed amounts
  (pool, lower tick, upper tick, amount A, amount B) and merge coins (primary coin,
  coins merged into it).
\<close>

datatype tx =
    RemoveLiquidityTx string string int
  | OpenPositionTx string int int
  | AddLiquidityFixTokenTx string int int "int option" "int option"
  | MergeCoinsTx string "string list"

text \<open>The three places where \<open>mergeCoins\<close> queries the coin objects.\<close>

datatype coinQuery = BeforeMerge | VerifyMerge | SecondVerify

text \<open>
  Every call that leaves the process, and every timed wait, is an event; a run of a
  service is the list of its events in the order they happen.
\<close>

datatype event =
    GetPoolInfo string
  | GetPositions string
  | GetBalance string
  | GetCoins string coinQuery
  | GetPositionById string
  | GetPool string
  | BuildPayload tx
  | SignAndExecute tx
  | Delay nat

text \<open>
  The outside world answers each call from the history of events up to and including
  the call itself, so answers may change from one call to the next.  \<open>Inl\<close> is a
  rejected promise.
\<close>

record env =
  ownerAddress :: string
  poolInfoAnswer :: "event list \<Rightarrow> thrown + poolInfo"
  positionsAnswer :: "event list \<Rightarrow> thrown + positionInfo list"
  balanceAnswer :: "event list \<Rightarrow> thrown + int"
  coinsAnswer :: "event list \<Rightarrow> thrown + coin list option"
  positionByIdAnswer :: "event list \<Rightarrow> thrown + string"
  poolAnswer :: "event list \<Rightarrow> thrown + string \<times> string"
  buildAnswer :: "event list \<Rightarrow> thrown + unit"
  executeAnswer :: "event list \<Rightarrow> thrown + execResult"

type_synonym 'a io = "event list \<Rightarrow> (thrown + 'a) \<times> event list"

definition ret :: "'a \<Rightarrow> 'a io" where
  "ret x w = (Inr x, w)"

definition throw :: "thrown \<Rightarrow> 'a io" where
  "throw e w = (Inl e, w)"

definition andThen :: "'a io \<Rightarrow> ('a \<Rightarrow> 'b io) \<Rightarrow> 'b io" where
  "andThen m f w = (case m w of (Inl e, w') \<Rightarrow> (Inl e, w') | (Inr x, w') \<Rightarrow> f x w')"

definition tryCatch :: "'a io \<Rightarrow> (thrown \<Rightarrow> 'a io) \<Rightarrow> 'a io" where
  "tryCatch m h w = (case m w of (Inl e, w') \<Rightarrow> h e w' | (Inr x, w') \<Rightarrow> (Inr x, w'))"

definition call :: "event \<Rightarrow> (event list \<Rightarrow> thrown + 'a) \<Rightarrow> 'a io" where
  "call e answer w = (answer (w @ [e]), w @ [e])"

definition delay :: "nat \<Rightarrow> unit io" where
  "delay ms w = (Inr (), w @ [Delay ms])"

definition getPoolInfo :: "env \<Rightarrow> string \<Rightarrow> poolInfo io" where
  "getPoolInfo world address = call (GetPoolInfo address) (poolInfoAnswer world)"

definition getPositions :: "env \<Rightarrow> string \<Rightarrow> positionInfo list io" where
  "getPositions world owner = call (GetPositions owner) (positionsAnswer world)"

definition getBalance :: "env \<Rightarrow> string \<Rightarrow> int io" where
  "getBalance world coinType = call (GetBalance coinType) (balanceAnswer world)"

definition getCoins :: "env \<Rightarrow> string \<Rightarrow> coinQuery \<Rightarrow> coin list option io" where
  "getCoins world coinType site = call (GetCoins coinType site) (coinsAnswer world)"

definition getPositionById :: "env \<Rightarrow> string \<Rightarrow> string io" where
  "getPositionById world posId = call (GetPositionById posId) (positionByIdAnswer world)"

definition getPool :: "env \<Rightarrow> string \<Rightarrow> (string \<times> string) io" where
  "getPool world poolId = call (GetPool poolId) (poolAnswer world)"

definition buildPayload :: "env \<Rightarrow> tx \<Rightarrow> unit io" where
  "buildPayload world t = call (BuildPayload t) (buildAnswer world)"

definition signAndExecuteTransaction :: "env \<Rightarrow> tx \<Rightarrow> execResult io" where
  "signAndExecuteTransaction world t = call (SignAndExecute t) (executeAnswer world)"

text \<open>\<open>result.effects?.status?.error || 'Unknown error'\<close>\<close>

definition statusErrorText :: "execResult \<Rightarrow> string" where
  "statusErrorText result =
     (case effectsError result of
        None \<Rightarrow> ''Unknown error''
      | Some m \<Rightarrow> if m = [] then ''Unknown error'' else m)"

text \<open>\<open>error instanceof Error ? error : new Error(String(error))\<close>\<close>

definition asError :: "thrown \<Rightarrow> thrown" where
  "asError e = (case e of Error m \<Rightarrow> Error m | NonError s \<Rightarrow> Error s)"

text \<open>\<open>error instanceof Error ? error.message : 'Unknown error'\<close>\<close>

definition errorMessage :: "thrown \<Rightarrow> string" where
  "errorMessage e = (case e of Error m \<Rightarrow> m | NonError s \<Rightarrow> ''Unknown error'')"

text \<open>Decimal form of a count, for the messages that embed one.\<close>

fun showNat :: "nat \<Rightarrow> string" where
  "showNat n =
     (if n < 10 then [char_of (48 + n)]
      else showNat (n div 10) @ [char_of (48 + n mod 10)])"

record rebalanceResult =
  success :: bool
  transactionDigest :: "string option"
  error :: "string option"
  oldPosition :: "(int \<times> int) option"
  newPosition :: "(int \<times> int) option"


declare showNat.simps [simp del]

text \<open>
  The range a run works with: \<open>calculateOptimalRange\<close>, whose rejection of a tick
  spacing that is not positive surfaces as a thrown error.
\<close>

definition optimalRange :: "botConfig \<Rightarrow> poolInfo \<Rightarrow> range io" where
  "optimalRange cfg pool =
     (case calculateOptimalRange cfg (currentTickIndex pool) (tickSpacing pool) of
        Inl invalid \<Rightarrow> throw (Error ''Invalid configuration'')
      | Inr r \<Rightarrow> ret r)"

definition failed :: "thrown \<Rightarrow> rebalanceResult" where
  "failed e = \<lparr>success = False, transactionDigest = None, error = Some (errorMessage e),
               oldPosition = None, newPosition = None\<rparr>"

section \<open>SimpleRebalanceService (with coin merging)\<close>

definition COIN_MERGE_FINALITY_DELAY_MS :: nat where
  "COIN_MERGE_FINALITY_DELAY_MS = 5000"

definition COIN_MERGE_PROPAGATION_DELAY_MS :: nat where
  "COIN_MERGE_PROPAGATION_DELAY_MS = 2000"

text \<open>
  \<open>allCoins.data.sort(...)\<close> with the comparator of \<open>mergeCoins\<close>: descending by
  balance; the sort is stable, so coins of equal balance keep their order.
\<close>

definition sortCoins :: "coin list \<Rightarrow> coin list" where
  "sortCoins cs = sort_key (\<lambda>c. - balance c) cs"

text \<open>\<open>coins.data && coins.data.length > 1\<close>\<close>

definition fragmented :: "coin list option \<Rightarrow> bool" where
  "fragmented d = (case d of None \<Rightarrow> False | Some cs \<Rightarrow> length cs > 1)"

definition consolidateFailedMessage :: "string \<Rightarrow> nat \<Rightarrow> string" where
  "consolidateFailedMessage coinType n =
     ''Coin merge failed to consolidate '' @ coinType
     @ ''. Expected 1 coin object but found '' @ showNat n
     @ '' after waiting '' @ showNat (COIN_MERGE_FINALITY_DELAY_MS * 2) @ ''ms total. ''
     @ ''This indicates network propagation issues or concurrent transactions.''"

text \<open>
  \<open>SimpleRebalanceService.mergeCoins\<close>.  The surrounding \<open>try\<close> logs and rethrows.
\<close>

definition mergeCoins :: "env \<Rightarrow> botConfig \<Rightarrow> string \<Rightarrow> unit io" where
  "mergeCoins world cfg coinType =
     tryCatch
       (andThen (getCoins world coinType BeforeMerge) (\<lambda>allCoins.
          case allCoins of
            None \<Rightarrow> ret ()
          | Some coins \<Rightarrow>
              if length coins \<le> 1 then ret ()
              else
                (case sortCoins coins of
                   [] \<Rightarrow> throw (Error ''TypeError'')
                 | primaryCoin # others \<Rightarrow>
                     andThen (signAndExecuteTransaction world
                                (MergeCoinsTx (coinObjectId primaryCoin) (map coinObjectId others)))
                       (\<lambda>result.
                          if effectsStatus result \<noteq> Some ''success''
                          then throw (Error (''Failed to merge coins: '' @ statusErrorText result))
                          else
                            andThen (delay COIN_MERGE_FINALITY_DELAY_MS) (\<lambda>_.
                            andThen (getCoins world coinType VerifyMerge) (\<lambda>verifyCoins.
                              if fragmented verifyCoins then
                                andThen (delay COIN_MERGE_FINALITY_DELAY_MS) (\<lambda>_.
                                andThen (getCoins world coinType SecondVerify) (\<lambda>secondVerify.
                                  case secondVerify of
                                    None \<Rightarrow> ret ()
                                  | Some remaining \<Rightarrow>
                                      if length remaining > 1
                                      then throw (Error (consolidateFailedMessage coinType
                                                           (length remaining)))
                                      else ret ()))
                              else ret ()))))))
       (\<lambda>error. throw error)"

text \<open>
  The body of the \<open>try\<close> in the retry loop of \<open>removeLiquidity\<close>: one submission, judged
  by the execution status.
\<close>

definition removeAttempt :: "env \<Rightarrow> tx \<Rightarrow> unit io" where
  "removeAttempt world payload =
     andThen (signAndExecuteTransaction world payload) (\<lambda>result.
       if effectsStatus result \<noteq> Some ''success''
       then throw (Error (''Remove liquidity failed: '' @ statusErrorText result))
       else ret ())"

text \<open>
  \<open>for (let attempt = 0; attempt < 2; attempt++) { try { ... return } catch { ... } }\<close>
  followed by \<open>throw lastError || new Error(...)\<close>.
\<close>

function removeLoop :: "env \<Rightarrow> tx \<Rightarrow> nat \<Rightarrow> thrown option \<Rightarrow> unit io" where
  "removeLoop world payload attempt lastError w =
     (if attempt < 2 then
        (case removeAttempt world payload w of
           (Inr u, w') \<Rightarrow> (Inr (), w')
         | (Inl e, w') \<Rightarrow>
             removeLoop world payload (attempt + 1) (Some (asError e))
               (if attempt < 1 then w' @ [Delay 2000] else w'))
      else
        (Inl (case lastError of
                Some e \<Rightarrow> e
              | None \<Rightarrow> Error ''Remove liquidity failed after retries''), w))"
  by pat_completeness auto
termination
  by (relation "measure (\<lambda>(world, payload, attempt, lastError, w). 2 - attempt)") auto

declare removeLoop.simps [simp del]

text \<open>\<open>SimpleRebalanceService.removeLiquidity\<close>\<close>

definition SimpleRebalanceService_removeLiquidity ::
  "env \<Rightarrow> botConfig \<Rightarrow> string \<Rightarrow> int \<Rightarrow> unit io" where
  "SimpleRebalanceService_removeLiquidity world cfg posId liq =
     andThen (getPositionById world posId) (\<lambda>poolId.
     andThen (getPool world poolId) (\<lambda>coinTypes.
     andThen (buildPayload world (RemoveLiquidityTx poolId posId liq)) (\<lambda>_.
       removeLoop world (RemoveLiquidityTx poolId posId liq) 0 None)))"

text \<open>
  The body of the \<open>try\<close> in the retry loop of \<open>addLiquidity\<close>: merge both coin types,
  wait, build the payload, submit, judge by the execution status.
\<close>

definition addAttempt :: "env \<Rightarrow> botConfig \<Rightarrow> poolInfo \<Rightarrow> int \<Rightarrow> int \<Rightarrow> string io" where
  "addAttempt world cfg pool lo hi =
     andThen (mergeCoins world cfg (coinTypeA pool)) (\<lambda>_.
     andThen (mergeCoins world cfg (coinTypeB pool)) (\<lambda>_.
     andThen (delay COIN_MERGE_PROPAGATION_DELAY_MS) (\<lambda>_.
     andThen (buildPayload world
                (AddLiquidityFixTokenTx (poolAddress pool) lo hi
                   (tokenAAmount cfg) (tokenBAmount cfg))) (\<lambda>_.
     andThen (signAndExecuteTransaction world
                (AddLiquidityFixTokenTx (poolAddress pool) lo hi
                   (tokenAAmount cfg) (tokenBAmount cfg))) (\<lambda>result.
       if effectsStatus result \<noteq> Some ''success''
       then throw (Error (''Add liquidity failed: '' @ statusErrorText result))
       else ret (digest result))))))"

function addLoop ::
  "env \<Rightarrow> botConfig \<Rightarrow> poolInfo \<Rightarrow> int \<Rightarrow> int \<Rightarrow> nat \<Rightarrow> thrown option \<Rightarrow> string io" where
  "addLoop world cfg pool lo hi attempt lastError w =
     (if attempt < 2 then
        (case addAttempt world cfg pool lo hi w of
           (Inr d, w') \<Rightarrow> (Inr d, w')
         | (Inl e, w') \<Rightarrow>
             addLoop world cfg pool lo hi (attempt + 1) (Some (asError e))
               (if attempt < 1 then w' @ [Delay 2000] else w'))
      else
        (Inl (case lastError of
                Some e \<Rightarrow> e
              | None \<Rightarrow> Error ''Add liquidity failed after retries''), w))"
  by pat_completeness auto
termination
  by (relation "measure (\<lambda>(world, cfg, pool, lo, hi, attempt, lastError, w). 2 - attempt)") auto

declare addLoop.simps [simp del]

text \<open>\<open>SimpleRebalanceService.addLiquidity\<close>\<close>

definition SimpleRebalanceService_addLiquidity ::
  "env \<Rightarrow> botConfig \<Rightarrow> poolInfo \<Rightarrow> int \<Rightarrow> int \<Rightarrow> string io" where
  "SimpleRebalanceService_addLiquidity world cfg pool lo hi =
     addLoop world cfg pool lo hi 0 None"

text \<open>
  \<open>SimpleRebalanceService.rebalancePosition\<close>: a thrown value becomes a failed result.
\<close>

definition SimpleRebalanceService_rebalancePosition ::
  "env \<Rightarrow> botConfig \<Rightarrow> positionInfo \<Rightarrow> poolInfo \<Rightarrow> rebalanceResult io" where
  "SimpleRebalanceService_rebalancePosition world cfg position pool =
     tryCatch
       (andThen (optimalRange cfg pool) (\<lambda>r.
        andThen
          (if liquidity position > 0
           then SimpleRebalanceService_removeLiquidity world cfg
                  (positionId position) (liquidity position)
           else ret ())
          (\<lambda>_.
        andThen (SimpleRebalanceService_addLiquidity world cfg pool (lower r) (upper r))
          (\<lambda>txDigest.
        ret \<lparr>success = True, transactionDigest = Some txDigest, error = None,
              oldPosition = Some (tickLower position, tickUpper position),
              newPosition = Some (lower r, upper r)\<rparr>))))
       (\<lambda>e. ret (failed e))"

text \<open>
  \<open>SimpleRebalanceService.checkAndRebalance\<close>: \<open>None\<close> is the \<open>null\<close> of "no action";
  the surrounding \<open>try\<close> logs and rethrows.
\<close>

definition SimpleRebalanceService_checkAndRebalance ::
  "env \<Rightarrow> botConfig \<Rightarrow> string \<Rightarrow> rebalanceResult option io" where
  "SimpleRebalanceService_checkAndRebalance world cfg address =
     tryCatch
       (andThen (getPoolInfo world address) (\<lambda>pool.
        andThen (getPositions world (ownerAddress world)) (\<lambda>allPositions.
          case find (\<lambda>p. Some (positionId p) = cfgPositionId cfg) allPositions of
            None \<Rightarrow> ret None
          | Some position \<Rightarrow>
              if isPositionInRange (tickLower position) (tickUpper position)
                   (currentTickIndex pool)
                 \<and> \<not> shouldRebalance cfg position pool
              then ret None
              else andThen (SimpleRebalanceService_rebalancePosition world cfg position pool)
                     (\<lambda>result. ret (Some result)))))
       (\<lambda>error. throw error)"


section \<open>RebalanceService (with dry-run mode)\<close>

text \<open>
  \<open>RebalanceService.removeLiquidity\<close>: one submission, no retry.  The position is
  looked up again among the owner's positions.
\<close>

definition RebalanceService_removeLiquidity :: "env \<Rightarrow> string \<Rightarrow> int \<Rightarrow> unit io" where
  "RebalanceService_removeLiquidity world posId liq =
     tryCatch
       (andThen (getPositions world (ownerAddress world)) (\<lambda>positions.
          case find (\<lambda>p. positionId p = posId) positions of
            None \<Rightarrow> throw (Error (''Position '' @ posId @ '' not found''))
          | Some position \<Rightarrow>
              andThen (buildPayload world
                         (RemoveLiquidityTx (posPoolAddress position) posId liq)) (\<lambda>_.
              andThen (signAndExecuteTransaction world
                         (RemoveLiquidityTx (posPoolAddress position) posId liq)) (\<lambda>result.
                if effectsStatus result \<noteq> Some ''success''
                then throw (Error (''Transaction failed: '' @ statusErrorText result))
                else ret ()))))
       (\<lambda>error. throw error)"

text \<open>
  \<open>RebalanceService.addLiquidity\<close>: the amounts are the configured ones or a tenth of
  the wallet balance, at least 1000; they only decide whether the call gives up before
  building the open-position transaction.  Balances are non-negative, so the division
  of the source and \<open>div\<close> agree.
\<close>

definition RebalanceService_addLiquidity ::
  "env \<Rightarrow> botConfig \<Rightarrow> poolInfo \<Rightarrow> int \<Rightarrow> int \<Rightarrow> string io" where
  "RebalanceService_addLiquidity world cfg pool lo hi =
     tryCatch
       (andThen (getBalance world (coinTypeA pool)) (\<lambda>balanceA.
        andThen (getBalance world (coinTypeB pool)) (\<lambda>balanceB.
          let amountA = (case tokenAAmount cfg of
                           Some a \<Rightarrow> a | None \<Rightarrow> max 1000 (balanceA div 10));
              amountB = (case tokenBAmount cfg of
                           Some b \<Rightarrow> b | None \<Rightarrow> max 1000 (balanceB div 10))
          in
            if amountA = 0 \<or> amountB = 0
            then throw (Error (''Insufficient token balance to add liquidity. ''
                               @ ''Please ensure you have both tokens in your wallet.''))
            else
              andThen (buildPayload world (OpenPositionTx (poolAddress pool) lo hi)) (\<lambda>_.
              andThen (signAndExecuteTransaction world
                         (OpenPositionTx (poolAddress pool) lo hi)) (\<lambda>openResult.
                if effectsStatus openResult \<noteq> Some ''success''
                then throw (Error (''Failed to open position: '' @ statusErrorText openResult))
                else ret (digest openResult))))))
       (\<lambda>error. throw error)"

text \<open>
  \<open>RebalanceService.createNewPosition\<close>: \<open>lowerTick && upperTick\<close> holds when both are
  configured and neither is 0.
\<close>

definition RebalanceService_createNewPosition ::
  "env \<Rightarrow> botConfig \<Rightarrow> bool \<Rightarrow> poolInfo \<Rightarrow> rebalanceResult io" where
  "RebalanceService_createNewPosition world cfg dryRun pool =
     tryCatch
       (andThen
          (case (lowerTick cfg, upperTick cfg) of
             (Some l, Some u) \<Rightarrow>
               if l \<noteq> 0 \<and> u \<noteq> 0 then ret \<lparr>lower = l, upper = u\<rparr>
               else optimalRange cfg pool
           | _ \<Rightarrow> optimalRange cfg pool)
          (\<lambda>r.
             if dryRun
             then ret \<lparr>success = True, transactionDigest = None, error = None,
                       oldPosition = None, newPosition = Some (lower r, upper r)\<rparr>
             else
               andThen (RebalanceService_addLiquidity world cfg pool (lower r) (upper r))
                 (\<lambda>d.
               ret \<lparr>success = True, transactionDigest = Some d, error = None,
                     oldPosition = None, newPosition = Some (lower r, upper r)\<rparr>)))
       (\<lambda>e. ret (failed e))"

text \<open>\<open>RebalanceService.rebalancePosition\<close>\<close>

definition RebalanceService_rebalancePosition ::
  "env \<Rightarrow> botConfig \<Rightarrow> bool \<Rightarrow> string \<Rightarrow> rebalanceResult io" where
  "RebalanceService_rebalancePosition world cfg dryRun address =
     tryCatch
       (andThen (getPoolInfo world address) (\<lambda>pool.
        andThen (getPositions world (ownerAddress world)) (\<lambda>positions.
          case filter (\<lambda>p. posPoolAddress p = address) positions of
            [] \<Rightarrow>
              if dryRun then
                andThen (optimalRange cfg pool) (\<lambda>r.
                ret \<lparr>success = True, transactionDigest = None, error = None,
                      oldPosition = None, newPosition = Some (lower r, upper r)\<rparr>)
              else RebalanceService_createNewPosition world cfg dryRun pool
          | position # rest \<Rightarrow>
              andThen (optimalRange cfg pool) (\<lambda>r.
                if \<bar>tickLower position - lower r\<bar> < tickSpacing pool
                   \<and> \<bar>tickUpper position - upper r\<bar> < tickSpacing pool
                then ret \<lparr>success = True, transactionDigest = None, error = None,
                          oldPosition = Some (tickLower position, tickUpper position),
                          newPosition = Some (lower r, upper r)\<rparr>
                else if dryRun
                then ret \<lparr>success = True, transactionDigest = None, error = None,
                          oldPosition = Some (tickLower position, tickUpper position),
                          newPosition = Some (lower r, upper r)\<rparr>
                else
                  andThen (RebalanceService_removeLiquidity world
                             (positionId position) (liquidity position)) (\<lambda>_.
                  andThen (RebalanceService_addLiquidity world cfg pool (lower r) (upper r))
                    (\<lambda>d.
                  ret \<lparr>success = True, transactionDigest = Some d, error = None,
                        oldPosition = Some (tickLower position, tickUpper position),
                        newPosition = Some (lower r, upper r)\<rparr>))))))
       (\<lambda>e. ret (failed e))"

text \<open>The transactions a run has submitted for signing and execution, in order.\<close>

fun submitted :: "event list \<Rightarrow> tx list" where
  "submitted [] = []"
| "submitted (SignAndExecute t # es) = t # submitted es"
| "submitted (e # es) = submitted es"

section \<open>CetusRebalanceBot\<close>

text \<open>
  The fields of the bot that \<open>start\<close>, \<open>stop\<close> and \<open>getStatus\<close> use, together with
  what the runtime holds for it: the interval timers that are armed, the calls of
  \<open>start\<close> that are suspended at \<open>await this.performCheck()\<close>, and the calls of
  \<open>performCheck\<close> that have begun and not yet completed.
\<close>

record bot =
  isRunning :: bool
  intervalId :: "nat option"
  timers :: "nat list"
  nextTimerId :: nat
  startsAwaiting :: nat
  checksInFlight :: nat

definition newBot :: bot where
  "newBot = \<lparr>isRunning = False, intervalId = None, timers = [], nextTimerId = 0,
              startsAwaiting = 0, checksInFlight = 0\<rparr>"

text \<open>
  \<open>start\<close> of \<open>bot.ts\<close> (the bot with \<open>RebalanceService\<close>) up to its \<open>await\<close>: return
  at once when already running; otherwise set the flag and begin the initial check.
  The \<open>start\<close> of the simple bot differs and is given further down.
\<close>

definition start_enter :: "bot \<Rightarrow> bot" where
  "start_enter b =
     (if isRunning b then b
      else b\<lparr>isRunning := True,
             startsAwaiting := startsAwaiting b + 1,
             checksInFlight := checksInFlight b + 1\<rparr>)"

text \<open>
  \<open>start\<close> after its \<open>await\<close>: the initial check is over (\<open>performCheck\<close> catches
  every error), and \<open>setInterval\<close> arms a new timer.
\<close>

definition start_resume :: "bot \<Rightarrow> bot" where
  "start_resume b =
     b\<lparr>startsAwaiting := startsAwaiting b - 1,
       checksInFlight := checksInFlight b - 1,
       intervalId := Some (nextTimerId b),
       timers := timers b @ [nextTimerId b],
       nextTimerId := nextTimerId b + 1\<rparr>"

text \<open>The interval callback: \<open>async () => { await this.performCheck(); }\<close>.\<close>

definition timerCallback :: "bot \<Rightarrow> bot" where
  "timerCallback b = b\<lparr>checksInFlight := checksInFlight b + 1\<rparr>"

definition checkCompleted :: "bot \<Rightarrow> bot" where
  "checkCompleted b = b\<lparr>checksInFlight := checksInFlight b - 1\<rparr>"

text \<open>\<open>stop\<close> has no \<open>await\<close>; the same code in both variants of the bot.\<close>

definition stop :: "bot \<Rightarrow> bot" where
  "stop b =
     (if \<not> isRunning b then b
      else
        (case intervalId b of
           None \<Rightarrow> b\<lparr>isRunning := False\<rparr>
         | Some t \<Rightarrow> b\<lparr>isRunning := False, timers := removeAll t (timers b),
                          intervalId := None\<rparr>))"

text \<open>\<open>getStatus().running\<close>\<close>

definition getStatus_running :: "bot \<Rightarrow> bool" where
  "getStatus_running b = isRunning b"

text \<open>
  What can happen to the bot, one step at a time: a call of \<open>start\<close> or \<open>stop\<close>, the
  completion of the initial check some \<open>start\<close> awaits, an armed timer firing, the
  completion of a check that a timer began.  A check awaits ledger calls, so its
  completion is a step of its own.
\<close>

datatype botEvent = StartCalled | InitialCheckDone | TimerFires nat | TimerCheckDone | StopCalled

fun step :: "bot \<Rightarrow> botEvent \<Rightarrow> bot" where
  "step b StartCalled = start_enter b"
| "step b InitialCheckDone = (if 0 < startsAwaiting b then start_resume b else b)"
| "step b (TimerFires t) = (if t \<in> set (timers b) then timerCallback b else b)"
| "step b TimerCheckDone =
     (if startsAwaiting b < checksInFlight b then checkCompleted b else b)"
| "step b StopCalled = stop b"

text \<open>
  \<open>await bot.start()\<close> with nothing else happening before the initial check completes.
\<close>

definition start :: "bot \<Rightarrow> bot" where
  "start b = (if isRunning b then start_enter b else start_resume (start_enter b))"

datatype lifecycleCall = Start | Stop

fun perform :: "bot \<Rightarrow> lifecycleCall \<Rightarrow> bot" where
  "perform b Start = start b"
| "perform b Stop = stop b"

text \<open>
  The last call of a sequence that changed the bot, if any: a \<open>start\<close> of a running
  bot and a \<open>stop\<close> of a stopped one change nothing.
\<close>

fun lastEffective :: "bot \<Rightarrow> lifecycleCall list \<Rightarrow> lifecycleCall option" where
  "lastEffective b [] = None"
| "lastEffective b (c # cs) =
     (case lastEffective (perform b c) cs of
        Some c' \<Rightarrow> Some c'
      | None \<Rightarrow> if perform b c \<noteq> b then Some c else None)"

text \<open>
  The simple bot (the bot with \<open>SimpleRebalanceService\<close>).  Its \<open>start\<close> awaits
  \<open>validateSetup()\<close> before it sets the flag, so beside the fields above the runtime
  holds the calls of \<open>start\<close> that are suspended at that \<open>await\<close>.  The rest of \<open>start\<close>,
  the interval callback, \<open>stop\<close> and \<open>performCheck\<close> are the same code as in \<open>bot.ts\<close>.
\<close>

record simpleBot =
  core :: bot
  startsValidating :: nat

definition newSimpleBot :: simpleBot where
  "newSimpleBot = \<lparr>core = newBot, startsValidating = 0\<rparr>"

text \<open>
  \<open>start\<close> of the simple bot up to \<open>await this.validateSetup()\<close>: return at once when
  already running; otherwise begin the validation.
\<close>

definition simple_start_enter :: "simpleBot \<Rightarrow> simpleBot" where
  "simple_start_enter sb =
     (if isRunning (core sb) then sb
      else sb\<lparr>startsValidating := startsValidating sb + 1\<rparr>)"

text \<open>
  \<open>validateSetup()\<close> has resolved: the flag is set, without looking at it again, and the
  initial check begins.
\<close>

definition simple_start_validated :: "simpleBot \<Rightarrow> simpleBot" where
  "simple_start_validated sb =
     sb\<lparr>startsValidating := startsValidating sb - 1,
        core := (core sb)\<lparr>isRunning := True,
                          startsAwaiting := startsAwaiting (core sb) + 1,
                          checksInFlight := checksInFlight (core sb) + 1\<rparr>\<rparr>"

text \<open>\<open>validateSetup()\<close> has rejected: \<open>start\<close> rejects and nothing else changes.\<close>

definition simple_start_rejected :: "simpleBot \<Rightarrow> simpleBot" where
  "simple_start_rejected sb = sb\<lparr>startsValidating := startsValidating sb - 1\<rparr>"

text \<open>
  The steps of the simple bot: those it shares with \<open>bot.ts\<close>, with its own beginning of
  \<open>start\<close>, and the two ways a pending validation ends.
\<close>

datatype simpleBotEvent = Shared botEvent | SetupValidated | SetupRejected

fun simpleStep :: "simpleBot \<Rightarrow> simpleBotEvent \<Rightarrow> simpleBot" where
  "simpleStep sb (Shared StartCalled) = simple_start_enter sb"
| "simpleStep sb (Shared e) = sb\<lparr>core := step (core sb) e\<rparr>"
| "simpleStep sb SetupValidated =
     (if 0 < startsValidating sb then simple_start_validated sb else sb)"
| "simpleStep sb SetupRejected =
     (if 0 < startsValidating sb then simple_start_rejected sb else sb)"

text \<open>
  The bookkeeping that awaited calls of \<open>start\<close> and \<open>stop\<close> keep: the armed timers
  are exactly the one the bot remembers, and it remembers one exactly when running.
\<close>

definition tidy :: "bot \<Rightarrow> bool" where
  "tidy b = (timers b = (case intervalId b of None \<Rightarrow> [] | Some t \<Rightarrow> [t])
             \<and> (isRunning b \<longleftrightarrow> intervalId b \<noteq> None))"

section \<open>Judging an attempt\<close>

text \<open>
  The two notions of the retry claim, in the spec's words: an attempt has succeeded
  only if the ledger's answer carries the execution status \<open>success\<close>; the error a
  caller sees for a failed attempt is the raised error, or an error made from the
  reported status.
\<close>

definition succeeded :: "thrown + execResult \<Rightarrow> bool" where
  "succeeded a = (case a of Inl e \<Rightarrow> False | Inr r \<Rightarrow> effectsStatus r = Some ''success'')"

definition surfaced :: "string \<Rightarrow> thrown + execResult \<Rightarrow> thrown" where
  "surfaced prefix a =
     (case a of Inl e \<Rightarrow> asError e | Inr r \<Rightarrow> Error (prefix @ statusErrorText r))"

definition addLiquidityTx :: "botConfig \<Rightarrow> poolInfo \<Rightarrow> int \<Rightarrow> int \<Rightarrow> tx" where
  "addLiquidityTx cfg pool lo hi =
     AddLiquidityFixTokenTx (poolAddress pool) lo hi (tokenAAmount cfg) (tokenBAmount cfg)"

section \<open>Example configuration, position, pool and worlds\<close>

definition cfg0 :: botConfig where
  "cfg0 = \<lparr>checkInterval = 60, rebalanceThreshold = 1 / 20, cfgPoolAddress = ''P'',
      cfgPositionId = Some ''pos1'', lowerTick = None, upperTick = None, rangeWidth = None,
      tokenAAmount = Some 1000000, tokenBAmount = Some 1000000, gasBudget = 50000000\<rparr>"

definition pos0 :: positionInfo where
  "pos0 = \<lparr>positionId = ''pos1'', posPoolAddress = ''P'', tickLower = - 1000,
     tickUpper = 1000, liquidity = 1000000, tokenA = ''A'', tokenB = ''B'', inRange = True\<rparr>"

definition posAligned :: positionInfo where
  "posAligned = \<lparr>positionId = ''pos1'', posPoolAddress = ''P'', tickLower = 0,
     tickUpper = 10, liquidity = 1000000, tokenA = ''A'', tokenB = ''B'', inRange = True\<rparr>"

definition pool0 :: "int \<Rightarrow> poolInfo" where
  "pool0 t = \<lparr>poolAddress = ''P'', currentTickIndex = t, currentSqrtPrice = ''1000000'',
     coinTypeA = ''A'', coinTypeB = ''B'', tickSpacing = 10\<rparr>"

definition ok :: execResult where
  "ok = \<lparr>digest = ''D'', effectsStatus = Some ''success'', effectsError = None\<rparr>"

text \<open>A world in which every call succeeds and the wallet holds no coin objects.\<close>

definition calmWorld :: "int \<Rightarrow> positionInfo list \<Rightarrow> env" where
  "calmWorld t ps = \<lparr>ownerAddress = ''me'',
     poolInfoAnswer = (\<lambda>h. Inr (pool0 t)),
     positionsAnswer = (\<lambda>h. Inr ps),
     balanceAnswer = (\<lambda>h. Inr 50000),
     coinsAnswer = (\<lambda>h. Inr (Some [])),
     positionByIdAnswer = (\<lambda>h. Inr ''P''),
     poolAnswer = (\<lambda>h. Inr (''A'', ''B'')),
     buildAnswer = (\<lambda>h. Inr ()),
     executeAnswer = (\<lambda>h. Inr ok)\<rparr>"

definition aborted :: execResult where
  "aborted = \<lparr>digest = ''X'', effectsStatus = Some ''failure'',
               effectsError = Some ''MoveAbort''\<rparr>"

text \<open>
  A wallet whose asset \<open>A\<close> is split over three coin objects until a merge has been
  submitted, and held in one object afterwards; asset \<open>B\<close> is held in one object.
\<close>

definition coinsOf :: "event list \<Rightarrow> coin list" where
  "coinsOf h =
     (case last h of
        GetCoins ct site \<Rightarrow>
          if ct = ''A'' then
            (if submitted h = []
             then [\<lparr>coinObjectId = ''a1'', balance = 5\<rparr>, \<lparr>coinObjectId = ''a2'', balance = 9\<rparr>,
                   \<lparr>coinObjectId = ''a3'', balance = 9\<rparr>]
             else [\<lparr>coinObjectId = ''a2'', balance = 23\<rparr>])
          else [\<lparr>coinObjectId = ''b1'', balance = 7\<rparr>]
      | _ \<Rightarrow> [])"

definition splitWorld :: env where
  "splitWorld = (calmWorld 0 [])\<lparr>coinsAnswer := (\<lambda>h. Inr (Some (coinsOf h)))\<rparr>"

text \<open>
  A world in which the tracked position is out of range at tick 5005, the wallet holds
  one coin object of each asset, the removal succeeds, the first add-liquidity
  submission is aborted by the ledger and the second one succeeds.
\<close>

definition isAdd :: "tx \<Rightarrow> bool" where
  "isAdd t = (case t of AddLiquidityFixTokenTx p lo hi a b \<Rightarrow> True | _ \<Rightarrow> False)"

definition firstAddAborts :: env where
  "firstAddAborts = (calmWorld 5005 [pos0\<lparr>inRange := False\<rparr>])
     \<lparr>coinsAnswer := (\<lambda>h. Inr (Some [\<lparr>coinObjectId = ''c'', balance = 7\<rparr>])),
      executeAnswer := (\<lambda>h. if length (filter isAdd (submitted h)) = 1
                             then Inr aborted else Inr ok)\<rparr>"

text \<open>
  A world in which the first removal is answered with a failure status and the second
  submission is rejected.
\<close>

definition removalFailsTwice :: env where
  "removalFailsTwice = (calmWorld 5005 [pos0\<lparr>inRange := False\<rparr>])
     \<lparr>executeAnswer := (\<lambda>h. if length (submitted h) = 1
                             then Inr aborted else Inl (NonError ''timeout''))\<rparr>"

section \<open>Helper lemmas\<close>

lemma tryCatch_rethrow [simp]: "tryCatch m (\<lambda>e. throw e) = m"
  by (rule ext) (simp add: tryCatch_def throw_def split: prod.splits sum.splits)

lemma submitted_append [simp]: "submitted (xs @ ys) = submitted xs @ submitted ys"
  by (induction xs rule: submitted.induct) simp_all

lemmas io_defs = ret_def throw_def andThen_def tryCatch_def call_def delay_def
  getPoolInfo_def getPositions_def getBalance_def getCoins_def getPositionById_def
  getPool_def buildPayload_def signAndExecuteTransaction_def

section \<open>The range calculator\<close>

text \<open>
  C1. For every current tick \<open>t\<close> and tick spacing \<open>s > 0\<close>, without a configured width,
  \<open>calculateOptimalRange\<close> returns \<open>lower = floor(t/s) * s\<close> and \<open>upper = lower + s\<close>;
  then \<open>lower \<le> t < upper\<close>, also for negative \<open>t\<close> (\<open>div\<close> on integers rounds down),
  and both bounds are multiples of \<open>s\<close>.
\<close>

theorem calculateOptimalRange_tightest:
  assumes "0 < s" and "rangeWidth cfg = None"
  shows "calculateOptimalRange cfg t s
           = Inr \<lparr>lower = (t div s) * s, upper = (t div s) * s + s\<rparr>
         \<and> (t div s) * s \<le> t \<and> t < (t div s) * s + s
         \<and> s dvd (t div s) * s \<and> s dvd ((t div s) * s + s)"
proof -
  have "t mod s < s" and "0 \<le> t mod s"
    using assms(1) by simp_all
  moreover have "t = (t div s) * s + t mod s"
    by simp
  ultimately have "(t div s) * s \<le> t \<and> t < (t div s) * s + s"
    by linarith
  then show ?thesis
    using assms by (simp add: calculateOptimalRange_def Let_def)
qed

text \<open>
  Tick 1000 and tick -100 at spacing 60, tick 500 at spacing 1.  At tick -100 rounding
  toward zero would give the lower bound -60, above the tick.
\<close>

theorem calculateOptimalRange_tightest_witness:
  "calculateOptimalRange cfg0 1000 60 = Inr \<lparr>lower = 960, upper = 1020\<rparr>
   \<and> calculateOptimalRange cfg0 (- 100) 60 = Inr \<lparr>lower = - 120, upper = - 60\<rparr>
   \<and> calculateOptimalRange cfg0 500 1 = Inr \<lparr>lower = 500, upper = 501\<rparr>"
  using calculateOptimalRange_tightest [of 60 cfg0 1000]
        calculateOptimalRange_tightest [of 60 cfg0 "- 100"]
        calculateOptimalRange_tightest [of 1 cfg0 500]
  by (simp add: cfg0_def)

text \<open>The centred policy on the spec's example: width 600 around tick 1000 at spacing 60.\<close>

lemma calculateOptimalRange_centred_example:
  "calculateOptimalRange (cfg0\<lparr>rangeWidth := Some 600\<rparr>) 1000 60
     = Inr \<lparr>lower = 660, upper = 1320\<rparr>"
  by (simp add: calculateOptimalRange_def cfg0_def)

section \<open>The in-range test\<close>

text \<open>
  C2. \<open>isPositionInRange lower upper t\<close> is true exactly when \<open>lower \<le> t \<le> upper\<close>: it is
  true at either bound of a non-empty range and false one unit outside either bound;
  in particular for the range \<open>[-100, 100]\<close>.
\<close>

theorem isPositionInRange_inclusive:
  "isPositionInRange lo hi t = (lo \<le> t \<and> t \<le> hi)
   \<and> isPositionInRange lo hi lo = (lo \<le> hi)
   \<and> isPositionInRange lo hi hi = (lo \<le> hi)
   \<and> \<not> isPositionInRange lo hi (lo - 1)
   \<and> \<not> isPositionInRange lo hi (hi + 1)
   \<and> isPositionInRange (- 100) 100 (- 100) \<and> isPositionInRange (- 100) 100 100
   \<and> \<not> isPositionInRange (- 100) 100 (- 101) \<and> \<not> isPositionInRange (- 100) 100 101"
  by (simp add: isPositionInRange_def)

section \<open>The rebalance decision\<close>

text \<open>
  C3. With a threshold in \<open>(0, 1)\<close>, \<open>shouldRebalance\<close> is true whenever the stored
  in-range flag is false, whatever the current tick; true when the position is flagged
  in range and the current tick is closer than \<open>threshold * (upper - lower)\<close> to the
  lower or to the upper bound; false when it is flagged in range and the current tick
  is at least that margin away from both bounds.
\<close>

theorem shouldRebalance_cases:
  assumes "0 < rebalanceThreshold cfg" and "rebalanceThreshold cfg < 1"
  shows "(\<not> inRange p \<longrightarrow> shouldRebalance cfg p pool)
    \<and> (inRange p
         \<and> (of_int (currentTickIndex pool - tickLower p)
               < rebalanceThreshold cfg * of_int (tickUpper p - tickLower p)
             \<or> of_int (tickUpper p - currentTickIndex pool)
               < rebalanceThreshold cfg * of_int (tickUpper p - tickLower p))
        \<longrightarrow> shouldRebalance cfg p pool)
    \<and> (inRange p
         \<and> rebalanceThreshold cfg * of_int (tickUpper p - tickLower p)
               \<le> of_int (currentTickIndex pool - tickLower p)
         \<and> rebalanceThreshold cfg * of_int (tickUpper p - tickLower p)
               \<le> of_int (tickUpper p - currentTickIndex pool)
        \<longrightarrow> \<not> shouldRebalance cfg p pool)"
  by (auto simp: shouldRebalance_def Let_def)

text \<open>
  Range \<open>[-1000, 1000]\<close> at threshold 0.05: a cleared flag triggers at tick 0, ticks
  -950 and 950 trigger, tick 0 does not.
\<close>

theorem shouldRebalance_cases_witness:
  "shouldRebalance cfg0 (pos0\<lparr>inRange := False\<rparr>) (pool0 0)
   \<and> shouldRebalance cfg0 pos0 (pool0 (- 950))
   \<and> shouldRebalance cfg0 pos0 (pool0 950)
   \<and> \<not> shouldRebalance cfg0 pos0 (pool0 0)"
  using shouldRebalance_cases [of cfg0 "pos0\<lparr>inRange := False\<rparr>" "pool0 0"]
        shouldRebalance_cases [of cfg0 pos0 "pool0 (- 950)"]
        shouldRebalance_cases [of cfg0 pos0 "pool0 950"]
        shouldRebalance_cases [of cfg0 pos0 "pool0 0"]
  by (simp add: cfg0_def pos0_def pool0_def)

section \<open>The orchestrator's no-op skip\<close>

text \<open>
  C4. In \<open>RebalanceService.rebalancePosition\<close>, once the pool and the positions are
  read and a fresh range is computed for the first position of the pool: if both bounds
  of the old range are less than one tick spacing away from the new ones, the run
  reports success with the old and the new range and submits no transaction; its only
  events are the two reads.
\<close>

theorem rebalancePosition_skips_unchanged_range:
  assumes "poolInfoAnswer world (w @ [GetPoolInfo address]) = Inr pool"
    and "positionsAnswer world (w @ [GetPoolInfo address, GetPositions (ownerAddress world)])
           = Inr positions"
    and "filter (\<lambda>p. posPoolAddress p = address) positions = position # rest"
    and "calculateOptimalRange cfg (currentTickIndex pool) (tickSpacing pool) = Inr r"
    and "\<bar>tickLower position - lower r\<bar> < tickSpacing pool"
    and "\<bar>tickUpper position - upper r\<bar> < tickSpacing pool"
  shows "RebalanceService_rebalancePosition world cfg dryRun address w =
           (Inr \<lparr>success = True, transactionDigest = None, error = None,
                  oldPosition = Some (tickLower position, tickUpper position),
                  newPosition = Some (lower r, upper r)\<rparr>,
            w @ [GetPoolInfo address, GetPositions (ownerAddress world)])
         \<and> submitted (snd (RebalanceService_rebalancePosition world cfg dryRun address w))
             = submitted w"
  using assms
  by (simp add: RebalanceService_rebalancePosition_def optimalRange_def io_defs)

theorem rebalancePosition_skips_unchanged_range_witness:
  "RebalanceService_rebalancePosition (calmWorld 5 [posAligned]) cfg0 False ''P'' [] =
     (Inr \<lparr>success = True, transactionDigest = None, error = None,
            oldPosition = Some (0, 10), newPosition = Some (0, 10)\<rparr>,
      [GetPoolInfo ''P'', GetPositions ''me''])
   \<and> submitted (snd (RebalanceService_rebalancePosition
                      (calmWorld 5 [posAligned]) cfg0 False ''P'' [])) = []"
  using rebalancePosition_skips_unchanged_range
    [of "calmWorld 5 [posAligned]" "[]" "''P''" "pool0 5" "[posAligned]" posAligned "[]" cfg0
        "\<lparr>lower = 0, upper = 10\<rparr>" False]
  by (simp add: calmWorld_def posAligned_def pool0_def cfg0_def calculateOptimalRange_def)

section \<open>Dry-run mode\<close>

text \<open>
  C8. With dry-run mode enabled, \<open>RebalanceService.rebalancePosition\<close> ends after its
  reads: its events are the pool query and at most the positions query, so nothing is
  submitted, neither from it nor from \<open>createNewPosition\<close>.  When the reads succeed and
  a range is computed, the result has the shape of a real run: success, no digest, no
  error, the old range of the first position of the pool (none when the pool has no
  position) and the computed new range.
\<close>

theorem dryRun_submits_nothing:
  "(snd (RebalanceService_rebalancePosition world cfg True address w) = w @ [GetPoolInfo address]
    \<or> snd (RebalanceService_rebalancePosition world cfg True address w)
         = w @ [GetPoolInfo address, GetPositions (ownerAddress world)])
   \<and> submitted (snd (RebalanceService_rebalancePosition world cfg True address w)) = submitted w
   \<and> submitted (snd (RebalanceService_createNewPosition world cfg True pool w)) = submitted w
   \<and> (poolInfoAnswer world (w @ [GetPoolInfo address]) = Inr pool
      \<and> positionsAnswer world (w @ [GetPoolInfo address, GetPositions (ownerAddress world)])
           = Inr positions
      \<and> calculateOptimalRange cfg (currentTickIndex pool) (tickSpacing pool) = Inr r
      \<longrightarrow> RebalanceService_rebalancePosition world cfg True address w =
           (Inr \<lparr>success = True, transactionDigest = None, error = None,
                  oldPosition = (case filter (\<lambda>p. posPoolAddress p = address) positions of
                                   [] \<Rightarrow> None
                                 | p # rest \<Rightarrow> Some (tickLower p, tickUpper p)),
                  newPosition = Some (lower r, upper r)\<rparr>,
            w @ [GetPoolInfo address, GetPositions (ownerAddress world)]))"
proof -
  have log: "snd (RebalanceService_rebalancePosition world cfg True address w) = w @ [GetPoolInfo address]
    \<or> snd (RebalanceService_rebalancePosition world cfg True address w)
         = w @ [GetPoolInfo address, GetPositions (ownerAddress world)]"
    by (simp add: RebalanceService_rebalancePosition_def optimalRange_def io_defs
             split: sum.splits list.splits)
  then have sub: "submitted (snd (RebalanceService_rebalancePosition world cfg True address w)) = submitted w"
    by auto
  have new: "submitted (snd (RebalanceService_createNewPosition world cfg True pool w)) = submitted w"
    by (simp add: RebalanceService_createNewPosition_def optimalRange_def io_defs
             split: sum.splits option.splits)
  have res: "poolInfoAnswer world (w @ [GetPoolInfo address]) = Inr pool
      \<and> positionsAnswer world (w @ [GetPoolInfo address, GetPositions (ownerAddress world)])
           = Inr positions
      \<and> calculateOptimalRange cfg (currentTickIndex pool) (tickSpacing pool) = Inr r
      \<longrightarrow> RebalanceService_rebalancePosition world cfg True address w =
           (Inr \<lparr>success = True, transactionDigest = None, error = None,
                  oldPosition = (case filter (\<lambda>p. posPoolAddress p = address) positions of
                                   [] \<Rightarrow> None
                                 | p # rest \<Rightarrow> Some (tickLower p, tickUpper p)),
                  newPosition = Some (lower r, upper r)\<rparr>,
            w @ [GetPoolInfo address, GetPositions (ownerAddress world)])"
    by (simp add: RebalanceService_rebalancePosition_def optimalRange_def io_defs
             split: list.splits)
  from log sub new res show ?thesis by blast
qed

text \<open>
  The same world with and without dry-run mode: the dry run reports the ranges and
  submits nothing, the real run submits the removal and the new position.
\<close>

theorem dryRun_submits_nothing_witness:
  "RebalanceService_rebalancePosition (calmWorld 105 [pos0]) cfg0 True ''P'' [] =
     (Inr \<lparr>success = True, transactionDigest = None, error = None,
            oldPosition = Some (- 1000, 1000), newPosition = Some (100, 110)\<rparr>,
      [GetPoolInfo ''P'', GetPositions ''me''])
   \<and> submitted (snd (RebalanceService_rebalancePosition (calmWorld 105 [pos0]) cfg0 False ''P'' []))
       = [RemoveLiquidityTx ''P'' ''pos1'' 1000000, OpenPositionTx ''P'' 100 110]"
  using dryRun_submits_nothing
    [where world = "calmWorld 105 [pos0]" and cfg = cfg0 and address = "''P''" and w = "[]"
       and pool = "pool0 105" and positions = "[pos0]"
       and r = "\<lparr>lower = 100, upper = 110\<rparr>"]
  by (simp add: calmWorld_def pos0_def pool0_def cfg0_def ok_def calculateOptimalRange_def
        RebalanceService_rebalancePosition_def RebalanceService_removeLiquidity_def
        RebalanceService_addLiquidity_def optimalRange_def io_defs)

section \<open>Balance consolidation\<close>

lemma sortCoins_mset: "mset (sortCoins cs) = mset cs"
  by (simp add: sortCoins_def)

lemma sortCoins_head_max:
  assumes "sortCoins cs = p # others"
  shows "\<forall>c \<in> set cs. balance c \<le> balance p"
proof -
  have "sorted (map (\<lambda>c. - balance c) (sortCoins cs))"
    by (simp add: sortCoins_def)
  then have "\<forall>c \<in> set others. - balance p \<le> - balance c"
    using assms by simp
  moreover have "set cs = set (p # others)"
    using assms sortCoins_mset [of cs] by (metis mset_eq_setD)
  ultimately show ?thesis by auto
qed

lemma sortCoins_nonempty: "1 < length cs \<Longrightarrow> sortCoins cs \<noteq> []"
proof
  assume "1 < length cs" and "sortCoins cs = []"
  then have "length (sort_key (\<lambda>c. - balance c) cs) = 0"
    by (simp add: sortCoins_def)
  then show False
    using \<open>1 < length cs\<close> by simp
qed

lemma mergeCoins_noop:
  assumes "coinsAnswer world (w @ [GetCoins ct BeforeMerge]) = Inr d" and "\<not> fragmented d"
  shows "mergeCoins world cfg ct w = (Inr (), w @ [GetCoins ct BeforeMerge])"
  using assms
  by (auto simp: mergeCoins_def fragmented_def io_defs split: option.splits)

lemma mergeCoins_one_transaction:
  assumes "coinsAnswer world (w @ [GetCoins ct BeforeMerge]) = Inr (Some coins)"
    and "1 < length coins" and "sortCoins coins = primary # others"
  shows "submitted (snd (mergeCoins world cfg ct w))
           = submitted w @ [MergeCoinsTx (coinObjectId primary) (map coinObjectId others)]"
  using assms
  by (simp add: mergeCoins_def fragmented_def io_defs split: option.splits sum.splits)

text \<open>
  C7. \<open>mergeCoins\<close> on a wallet that reports no coin list, or at most one coin object,
  succeeds after its one query and submits nothing, so calling it again on a
  consolidated wallet changes nothing.  On a wallet that reports more than one coin
  object it submits exactly one transaction, which merges all other coin objects into
  one of largest balance.
\<close>

theorem mergeCoins_consolidation:
  "(coinsAnswer world (w @ [GetCoins ct BeforeMerge]) = Inr d \<and> \<not> fragmented d \<longrightarrow>
       mergeCoins world cfg ct w = (Inr (), w @ [GetCoins ct BeforeMerge])
       \<and> submitted (snd (mergeCoins world cfg ct w)) = submitted w)
   \<and> (coinsAnswer world (w @ [GetCoins ct BeforeMerge]) = Inr (Some coins) \<and> 1 < length coins \<longrightarrow>
       (\<exists>primary others.
           mset (primary # others) = mset coins
         \<and> (\<forall>c \<in> set coins. balance c \<le> balance primary)
         \<and> submitted (snd (mergeCoins world cfg ct w))
             = submitted w @ [MergeCoinsTx (coinObjectId primary) (map coinObjectId others)]))"
proof (intro conjI impI)
  assume a: "coinsAnswer world (w @ [GetCoins ct BeforeMerge]) = Inr d \<and> \<not> fragmented d"
  then show "mergeCoins world cfg ct w = (Inr (), w @ [GetCoins ct BeforeMerge])"
    by (simp add: mergeCoins_noop)
  then show "submitted (snd (mergeCoins world cfg ct w)) = submitted w"
    by simp
next
  assume a: "coinsAnswer world (w @ [GetCoins ct BeforeMerge]) = Inr (Some coins) \<and> 1 < length coins"
  then obtain primary others where s: "sortCoins coins = primary # others"
    using sortCoins_nonempty [of coins] by (cases "sortCoins coins") auto
  have "mset (primary # others) = mset coins"
    using s sortCoins_mset [of coins] by simp
  moreover have "\<forall>c \<in> set coins. balance c \<le> balance primary"
    using s by (rule sortCoins_head_max)
  moreover have "submitted (snd (mergeCoins world cfg ct w))
             = submitted w @ [MergeCoinsTx (coinObjectId primary) (map coinObjectId others)]"
    using a s by (simp add: mergeCoins_one_transaction)
  ultimately show "\<exists>primary others.
           mset (primary # others) = mset coins
         \<and> (\<forall>c \<in> set coins. balance c \<le> balance primary)
         \<and> submitted (snd (mergeCoins world cfg ct w))
             = submitted w @ [MergeCoinsTx (coinObjectId primary) (map coinObjectId others)]"
    by blast
qed

text \<open>
  Asset \<open>B\<close> in one coin object: nothing to do.  Asset \<open>A\<close> in three coin objects of
  balances 5, 9 and 9: the first of the largest is the target.
\<close>

theorem mergeCoins_consolidation_witness:
  "mergeCoins splitWorld cfg0 ''B'' [] = (Inr (), [GetCoins ''B'' BeforeMerge])
   \<and> submitted (snd (mergeCoins splitWorld cfg0 ''A'' [])) = [MergeCoinsTx ''a2'' [''a3'', ''a1'']]"
  using mergeCoins_consolidation
     [where world = splitWorld and cfg = cfg0 and ct = "''B''" and w = "[]"
        and d = "Some [\<lparr>coinObjectId = ''b1'', balance = 7\<rparr>]"]
    mergeCoins_consolidation
     [where world = splitWorld and cfg = cfg0 and ct = "''A''" and w = "[]"
        and coins = "[\<lparr>coinObjectId = ''a1'', balance = 5\<rparr>, \<lparr>coinObjectId = ''a2'', balance = 9\<rparr>,
                   \<lparr>coinObjectId = ''a3'', balance = 9\<rparr>]"]
  by (simp add: splitWorld_def calmWorld_def coinsOf_def fragmented_def ok_def
        mergeCoins_def sortCoins_def io_defs COIN_MERGE_FINALITY_DELAY_MS_def)

section \<open>Bounded retry\<close>

lemma removeAttempt_eq:
  "removeAttempt world p w =
     (case executeAnswer world (w @ [SignAndExecute p]) of
        Inl e \<Rightarrow> (Inl e, w @ [SignAndExecute p])
      | Inr r \<Rightarrow>
          if effectsStatus r = Some ''success'' then (Inr (), w @ [SignAndExecute p])
          else (Inl (Error (''Remove liquidity failed: '' @ statusErrorText r)),
                w @ [SignAndExecute p]))"
  by (simp add: removeAttempt_def io_defs split: sum.splits)

lemma removeLoop_unrolled:
  "removeLoop world p 0 None w =
     (case removeAttempt world p w of
        (Inr u, w1) \<Rightarrow> (Inr (), w1)
      | (Inl e1, w1) \<Rightarrow>
          (case removeAttempt world p (w1 @ [Delay 2000]) of
             (Inr u, w2) \<Rightarrow> (Inr (), w2)
           | (Inl e2, w2) \<Rightarrow> (Inl (asError e2), w2)))"
proof -
  have two: "removeLoop world p (Suc (Suc 0)) le w' = (Inl (case le of Some e \<Rightarrow> e
       | None \<Rightarrow> Error ''Remove liquidity failed after retries''), w')" for le w'
    by (subst removeLoop.simps) simp
  have one: "removeLoop world p (Suc 0) le w' =
      (case removeAttempt world p w' of
         (Inr u, w2) \<Rightarrow> (Inr (), w2)
       | (Inl e2, w2) \<Rightarrow> (Inl (asError e2), w2))" for le w'
    by (subst removeLoop.simps) (simp add: two split: prod.splits sum.splits)
  show ?thesis
    by (subst removeLoop.simps) (simp add: one split: prod.splits sum.splits)
qed

lemma addLoop_unrolled:
  "addLoop world cfg pool lo hi 0 None w =
     (case addAttempt world cfg pool lo hi w of
        (Inr d, w1) \<Rightarrow> (Inr d, w1)
      | (Inl e1, w1) \<Rightarrow>
          (case addAttempt world cfg pool lo hi (w1 @ [Delay 2000]) of
             (Inr d, w2) \<Rightarrow> (Inr d, w2)
           | (Inl e2, w2) \<Rightarrow> (Inl (asError e2), w2)))"
proof -
  have two: "addLoop world cfg pool lo hi (Suc (Suc 0)) le w' = (Inl (case le of Some e \<Rightarrow> e
       | None \<Rightarrow> Error ''Add liquidity failed after retries''), w')" for le w'
    by (subst addLoop.simps) simp
  have one: "addLoop world cfg pool lo hi (Suc 0) le w' =
      (case addAttempt world cfg pool lo hi w' of
         (Inr d, w2) \<Rightarrow> (Inr d, w2)
       | (Inl e2, w2) \<Rightarrow> (Inl (asError e2), w2))" for le w'
    by (subst addLoop.simps) (simp add: two split: prod.splits sum.splits)
  show ?thesis
    by (subst addLoop.simps) (simp add: one split: prod.splits sum.splits)
qed

lemma removeLiquidity_outcome:
  assumes "positionByIdAnswer world (w @ [GetPositionById posId]) = Inr poolId"
    and "poolAnswer world (w @ [GetPositionById posId, GetPool poolId]) = Inr coinTypes"
    and "buildAnswer world (w @ [GetPositionById posId, GetPool poolId,
                                  BuildPayload (RemoveLiquidityTx poolId posId liq)]) = Inr ()"
  shows "SimpleRebalanceService_removeLiquidity world cfg posId liq w =
          (let p = RemoveLiquidityTx poolId posId liq;
               w1 = w @ [GetPositionById posId, GetPool poolId, BuildPayload p, SignAndExecute p];
               w2 = w1 @ [Delay 2000, SignAndExecute p]
           in if succeeded (executeAnswer world w1) then (Inr (), w1)
              else if succeeded (executeAnswer world w2) then (Inr (), w2)
              else (Inl (surfaced ''Remove liquidity failed: '' (executeAnswer world w2)), w2))"
  using assms
  by (simp add: SimpleRebalanceService_removeLiquidity_def removeLoop_unrolled removeAttempt_eq
        io_defs succeeded_def surfaced_def asError_def Let_def split: sum.splits)

lemma removeAttempt_submits_once:
  "submitted (snd (removeAttempt world p w)) = submitted w @ [p]"
  by (simp add: removeAttempt_eq split: sum.splits)

lemma removeLoop_bound:
  "length (submitted (snd (removeLoop world p 0 None w))) \<le> length (submitted w) + 2"
proof -
  obtain r1 w1 where a1: "removeAttempt world p w = (r1, w1)" by (cases "removeAttempt world p w")
  obtain r2 w2 where a2: "removeAttempt world p (w1 @ [Delay 2000]) = (r2, w2)"
    by (cases "removeAttempt world p (w1 @ [Delay 2000])")
  have s1: "submitted w1 = submitted w @ [p]"
    using removeAttempt_submits_once [of world p w] a1 by simp
  have s2: "submitted w2 = submitted w1 @ [p]"
    using removeAttempt_submits_once [of world p "w1 @ [Delay 2000]"] a2 by simp
  show ?thesis
    using a1 a2 s1 s2 by (simp add: removeLoop_unrolled split: sum.splits)
qed

lemma removeLiquidity_bound:
  "length (submitted (snd (SimpleRebalanceService_removeLiquidity world cfg posId liq w)))
     \<le> length (submitted w) + 2"
proof -
  have "length (submitted (snd (removeLoop world p 0 None (w @ es))))
          \<le> length (submitted w) + 2" if "submitted es = []" for p es
    using removeLoop_bound [of world p "w @ es"] that by simp
  from this [of "[GetPositionById posId, GetPool poolId, BuildPayload (RemoveLiquidityTx poolId posId liq)]" for poolId]
  show ?thesis
    by (simp add: SimpleRebalanceService_removeLiquidity_def io_defs split: sum.splits prod.splits)
qed

lemma mergeCoins_submits_merges_only:
  "submitted (snd (mergeCoins world cfg ct w)) = submitted w
   \<or> (\<exists>p os. submitted (snd (mergeCoins world cfg ct w)) = submitted w @ [MergeCoinsTx p os])"
  by (simp add: mergeCoins_def io_defs split: option.splits sum.splits list.splits)

lemma mergeCoins_no_add:
  "count_list (submitted (snd (mergeCoins world cfg ct w))) (addLiquidityTx cfg' pool lo hi)
     = count_list (submitted w) (addLiquidityTx cfg' pool lo hi)"
  using mergeCoins_submits_merges_only [of world cfg ct w]
  by (auto simp: addLiquidityTx_def)

lemma addAttempt_eq:
  assumes "mergeCoins world cfg (coinTypeA pool) w = (Inr (), wa)"
    and "mergeCoins world cfg (coinTypeB pool) wa = (Inr (), wb)"
    and "buildAnswer world (wb @ [Delay 2000, BuildPayload (addLiquidityTx cfg pool lo hi)])
           = Inr ()"
  shows "addAttempt world cfg pool lo hi w =
     (let ws = wb @ [Delay 2000, BuildPayload (addLiquidityTx cfg pool lo hi),
                     SignAndExecute (addLiquidityTx cfg pool lo hi)]
      in case executeAnswer world ws of
           Inl e \<Rightarrow> (Inl e, ws)
         | Inr r \<Rightarrow>
             if effectsStatus r = Some ''success'' then (Inr (digest r), ws)
             else (Inl (Error (''Add liquidity failed: '' @ statusErrorText r)), ws))"
  using assms
  by (simp add: addAttempt_def addLiquidityTx_def COIN_MERGE_PROPAGATION_DELAY_MS_def io_defs
        Let_def split: sum.splits)

lemma addAttempt_bound:
  "count_list (submitted (snd (addAttempt world cfg pool lo hi w))) (addLiquidityTx cfg pool lo hi)
     \<le> count_list (submitted w) (addLiquidityTx cfg pool lo hi) + 1"
proof -
  obtain ra wa where a: "mergeCoins world cfg (coinTypeA pool) w = (ra, wa)"
    by (cases "mergeCoins world cfg (coinTypeA pool) w")
  obtain rb wb where b: "mergeCoins world cfg (coinTypeB pool) wa = (rb, wb)"
    by (cases "mergeCoins world cfg (coinTypeB pool) wa")
  have ca: "count_list (submitted wa) (addLiquidityTx cfg pool lo hi)
              = count_list (submitted w) (addLiquidityTx cfg pool lo hi)"
    using mergeCoins_no_add [of world cfg "coinTypeA pool" w cfg pool lo hi] a by simp
  have cb: "count_list (submitted wb) (addLiquidityTx cfg pool lo hi)
              = count_list (submitted wa) (addLiquidityTx cfg pool lo hi)"
    using mergeCoins_no_add [of world cfg "coinTypeB pool" wa cfg pool lo hi] b by simp
  show ?thesis
    using a b ca cb
    by (simp add: addAttempt_def io_defs addLiquidityTx_def split: sum.splits)
qed

lemma addLiquidity_bound:
  "count_list (submitted (snd (SimpleRebalanceService_addLiquidity world cfg pool lo hi w)))
       (addLiquidityTx cfg pool lo hi)
     \<le> count_list (submitted w) (addLiquidityTx cfg pool lo hi) + 2"
proof -
  obtain r1 w1 where a1: "addAttempt world cfg pool lo hi w = (r1, w1)"
    by (cases "addAttempt world cfg pool lo hi w")
  obtain r2 w2 where a2: "addAttempt world cfg pool lo hi (w1 @ [Delay 2000]) = (r2, w2)"
    by (cases "addAttempt world cfg pool lo hi (w1 @ [Delay 2000])")
  have s1: "count_list (submitted w1) (addLiquidityTx cfg pool lo hi)
              \<le> count_list (submitted w) (addLiquidityTx cfg pool lo hi) + 1"
    using addAttempt_bound [of world cfg pool lo hi w] a1 by simp
  have s2: "count_list (submitted w2) (addLiquidityTx cfg pool lo hi)
              \<le> count_list (submitted w1) (addLiquidityTx cfg pool lo hi) + 1"
    using addAttempt_bound [of world cfg pool lo hi "w1 @ [Delay 2000]"] a2 by simp
  show ?thesis
    using a1 a2 s1 s2
    by (simp add: SimpleRebalanceService_addLiquidity_def addLoop_unrolled split: sum.splits)
qed

text \<open>
  C6. \<open>SimpleRebalanceService.removeLiquidity\<close> and \<open>addLiquidity\<close> make at most two
  attempts, 2000 ms apart.  An attempt succeeds only if the ledger answers with the
  execution status \<open>success\<close>; an answer with another status fails the attempt exactly
  as a rejected call does.  A failed first attempt is retried once, and when the second
  fails too its error is what the caller gets.
  For the removal: at most two submissions; and once the payload is built, the outcome
  is decided by the answers to the first and, if needed, the second submission.
  For the addition: at most two submissions of the add-liquidity transaction; the loop
  is two runs of the attempt with the delay between them; and an attempt that reaches
  its submission is judged by the status of the answer.
\<close>

theorem two_attempts_judged_by_status:
  "length (submitted (snd (SimpleRebalanceService_removeLiquidity world cfg posId liq w)))
     \<le> length (submitted w) + 2
   \<and> (positionByIdAnswer world (w @ [GetPositionById posId]) = Inr poolId
      \<and> poolAnswer world (w @ [GetPositionById posId, GetPool poolId]) = Inr coinTypes
      \<and> buildAnswer world (w @ [GetPositionById posId, GetPool poolId,
                                  BuildPayload (RemoveLiquidityTx poolId posId liq)]) = Inr ()
      \<longrightarrow> SimpleRebalanceService_removeLiquidity world cfg posId liq w =
          (let p = RemoveLiquidityTx poolId posId liq;
               w1 = w @ [GetPositionById posId, GetPool poolId, BuildPayload p, SignAndExecute p];
               w2 = w1 @ [Delay 2000, SignAndExecute p]
           in if succeeded (executeAnswer world w1) then (Inr (), w1)
              else if succeeded (executeAnswer world w2) then (Inr (), w2)
              else (Inl (surfaced ''Remove liquidity failed: '' (executeAnswer world w2)), w2)))
   \<and> count_list (submitted (snd (SimpleRebalanceService_addLiquidity world cfg pool lo hi w)))
         (addLiquidityTx cfg pool lo hi)
       \<le> count_list (submitted w) (addLiquidityTx cfg pool lo hi) + 2
   \<and> SimpleRebalanceService_addLiquidity world cfg pool lo hi w =
       (case addAttempt world cfg pool lo hi w of
          (Inr d, w1) \<Rightarrow> (Inr d, w1)
        | (Inl e1, w1) \<Rightarrow>
            (case addAttempt world cfg pool lo hi (w1 @ [Delay 2000]) of
               (Inr d, w2) \<Rightarrow> (Inr d, w2)
             | (Inl e2, w2) \<Rightarrow> (Inl (asError e2), w2)))
   \<and> (mergeCoins world cfg (coinTypeA pool) w = (Inr (), wa)
      \<and> mergeCoins world cfg (coinTypeB pool) wa = (Inr (), wb)
      \<and> buildAnswer world (wb @ [Delay 2000, BuildPayload (addLiquidityTx cfg pool lo hi)])
           = Inr ()
      \<longrightarrow> addAttempt world cfg pool lo hi w =
          (let ws = wb @ [Delay 2000, BuildPayload (addLiquidityTx cfg pool lo hi),
                          SignAndExecute (addLiquidityTx cfg pool lo hi)]
           in if succeeded (executeAnswer world ws)
              then (Inr (digest (projr (executeAnswer world ws))), ws)
              else (Inl (case executeAnswer world ws of
                           Inl e \<Rightarrow> e
                         | Inr r \<Rightarrow> Error (''Add liquidity failed: '' @ statusErrorText r)), ws)))"
proof (intro conjI impI)
  show "length (submitted (snd (SimpleRebalanceService_removeLiquidity world cfg posId liq w)))
     \<le> length (submitted w) + 2"
    by (rule removeLiquidity_bound)
next
  assume "positionByIdAnswer world (w @ [GetPositionById posId]) = Inr poolId
      \<and> poolAnswer world (w @ [GetPositionById posId, GetPool poolId]) = Inr coinTypes
      \<and> buildAnswer world (w @ [GetPositionById posId, GetPool poolId,
                                  BuildPayload (RemoveLiquidityTx poolId posId liq)]) = Inr ()"
  then show "SimpleRebalanceService_removeLiquidity world cfg posId liq w =
          (let p = RemoveLiquidityTx poolId posId liq;
               w1 = w @ [GetPositionById posId, GetPool poolId, BuildPayload p, SignAndExecute p];
               w2 = w1 @ [Delay 2000, SignAndExecute p]
           in if succeeded (executeAnswer world w1) then (Inr (), w1)
              else if succeeded (executeAnswer world w2) then (Inr (), w2)
              else (Inl (surfaced ''Remove liquidity failed: '' (executeAnswer world w2)), w2))"
    using removeLiquidity_outcome [of world w posId poolId coinTypes liq cfg] by blast
next
  show "count_list (submitted (snd (SimpleRebalanceService_addLiquidity world cfg pool lo hi w)))
         (addLiquidityTx cfg pool lo hi)
       \<le> count_list (submitted w) (addLiquidityTx cfg pool lo hi) + 2"
    by (rule addLiquidity_bound)
next
  show "SimpleRebalanceService_addLiquidity world cfg pool lo hi w =
       (case addAttempt world cfg pool lo hi w of
          (Inr d, w1) \<Rightarrow> (Inr d, w1)
        | (Inl e1, w1) \<Rightarrow>
            (case addAttempt world cfg pool lo hi (w1 @ [Delay 2000]) of
               (Inr d, w2) \<Rightarrow> (Inr d, w2)
             | (Inl e2, w2) \<Rightarrow> (Inl (asError e2), w2)))"
    by (simp add: SimpleRebalanceService_addLiquidity_def addLoop_unrolled)
next
  assume "mergeCoins world cfg (coinTypeA pool) w = (Inr (), wa)
      \<and> mergeCoins world cfg (coinTypeB pool) wa = (Inr (), wb)
      \<and> buildAnswer world (wb @ [Delay 2000, BuildPayload (addLiquidityTx cfg pool lo hi)])
           = Inr ()"
  then show "addAttempt world cfg pool lo hi w =
          (let ws = wb @ [Delay 2000, BuildPayload (addLiquidityTx cfg pool lo hi),
                          SignAndExecute (addLiquidityTx cfg pool lo hi)]
           in if succeeded (executeAnswer world ws)
              then (Inr (digest (projr (executeAnswer world ws))), ws)
              else (Inl (case executeAnswer world ws of
                           Inl e \<Rightarrow> e
                         | Inr r \<Rightarrow> Error (''Add liquidity failed: '' @ statusErrorText r)), ws))"
    using addAttempt_eq [of world cfg pool w wa wb lo hi]
    by (simp add: Let_def succeeded_def split: sum.splits)
qed

text \<open>
  A removal whose first submission is answered with status \<open>failure\<close> and whose second
  is rejected with a value that is not an \<open>Error\<close>; an addition answered with status
  \<open>failure\<close>.
\<close>

theorem two_attempts_judged_by_status_witness:
  "SimpleRebalanceService_removeLiquidity removalFailsTwice cfg0 ''pos1'' 1000000 [] =
     (Inl (Error ''timeout''),
      [GetPositionById ''pos1'', GetPool ''P'',
       BuildPayload (RemoveLiquidityTx ''P'' ''pos1'' 1000000),
       SignAndExecute (RemoveLiquidityTx ''P'' ''pos1'' 1000000), Delay 2000,
       SignAndExecute (RemoveLiquidityTx ''P'' ''pos1'' 1000000)])
   \<and> addAttempt removalFailsTwice cfg0 (pool0 5005) 5000 5010 [] =
     (Inl (Error ''Add liquidity failed: MoveAbort''),
      [GetCoins ''A'' BeforeMerge, GetCoins ''B'' BeforeMerge, Delay 2000,
       BuildPayload (addLiquidityTx cfg0 (pool0 5005) 5000 5010),
       SignAndExecute (addLiquidityTx cfg0 (pool0 5005) 5000 5010)])"
  using two_attempts_judged_by_status
    [where world = removalFailsTwice and cfg = cfg0 and posId = "''pos1''" and liq = 1000000
       and w = "[]" and poolId = "''P''" and coinTypes = "(''A'', ''B'')"
       and pool = "pool0 5005" and lo = 5000 and hi = 5010
       and wa = "[GetCoins ''A'' BeforeMerge]"
       and wb = "[GetCoins ''A'' BeforeMerge, GetCoins ''B'' BeforeMerge]"]
  by (simp add: removalFailsTwice_def calmWorld_def pool0_def cfg0_def aborted_def ok_def
        mergeCoins_def io_defs succeeded_def surfaced_def asError_def statusErrorText_def
        addLiquidityTx_def Let_def)

section \<open>Consolidation and the retry loop\<close>

text \<open>
  C5. One check cycle of \<open>SimpleRebalanceService\<close> in a world where the first
  add-liquidity submission is aborted: the retry queries the coin objects of both
  assets again before it builds and submits the transaction a second time, so the
  consolidation step runs once per attempt, not once per cycle.
\<close>

theorem consolidation_repeated_on_retry:
  "SimpleRebalanceService_checkAndRebalance firstAddAborts cfg0 ''P'' [] =
     (Inr (Some \<lparr>success = True, transactionDigest = Some ''D'', error = None,
                  oldPosition = Some (- 1000, 1000), newPosition = Some (5000, 5010)\<rparr>),
      [GetPoolInfo ''P'', GetPositions ''me'', GetPositionById ''pos1'', GetPool ''P'',
       BuildPayload (RemoveLiquidityTx ''P'' ''pos1'' 1000000),
       SignAndExecute (RemoveLiquidityTx ''P'' ''pos1'' 1000000),
       GetCoins ''A'' BeforeMerge, GetCoins ''B'' BeforeMerge, Delay 2000,
       BuildPayload (addLiquidityTx cfg0 (pool0 5005) 5000 5010),
       SignAndExecute (addLiquidityTx cfg0 (pool0 5005) 5000 5010),
       Delay 2000,
       GetCoins ''A'' BeforeMerge, GetCoins ''B'' BeforeMerge, Delay 2000,
       BuildPayload (addLiquidityTx cfg0 (pool0 5005) 5000 5010),
       SignAndExecute (addLiquidityTx cfg0 (pool0 5005) 5000 5010)])"
  by (simp add: SimpleRebalanceService_checkAndRebalance_def
        SimpleRebalanceService_rebalancePosition_def SimpleRebalanceService_removeLiquidity_def
        SimpleRebalanceService_addLiquidity_def removeLoop_unrolled addLoop_unrolled
        removeAttempt_def addAttempt_def mergeCoins_def optimalRange_def
        calculateOptimalRange_def isPositionInRange_def shouldRebalance_def
        firstAddAborts_def calmWorld_def pool0_def pos0_def cfg0_def ok_def aborted_def
        isAdd_def addLiquidityTx_def COIN_MERGE_PROPAGATION_DELAY_MS_def io_defs Let_def)

section \<open>The scheduler\<close>

lemma tick_begins_cycle:
  "t \<in> set (timers b) \<Longrightarrow> checksInFlight (step b (TimerFires t)) = checksInFlight b + 1"
  by (simp add: timerCallback_def)

lemma cycle_begins_iff:
  "(checksInFlight b < checksInFlight (step b e))
     = ((e = StartCalled \<and> \<not> isRunning b) \<or> (\<exists>t. e = TimerFires t \<and> t \<in> set (timers b)))"
  by (cases e)
     (auto simp: start_enter_def start_resume_def timerCallback_def checkCompleted_def stop_def
           split: option.splits)

lemma tick_without_timer: "timers b = [] \<Longrightarrow> step b (TimerFires t) = b"
  by simp

lemma no_timer_before_completion:
  "timers b = [] \<Longrightarrow> InitialCheckDone \<notin> set es \<Longrightarrow> timers (foldl step b es) = []"
proof (induction es arbitrary: b)
  case Nil
  then show ?case by simp
next
  case (Cons e es)
  have "timers (step b e) = []"
    using Cons.prems
    by (cases e) (auto simp: start_enter_def timerCallback_def checkCompleted_def stop_def
                       split: option.splits)
  then show ?case
    using Cons.IH [of "step b e"] Cons.prems by simp
qed

lemma simple_tick_begins_cycle:
  "t \<in> set (timers (core sb))
   \<Longrightarrow> checksInFlight (core (simpleStep sb (Shared (TimerFires t)))) = checksInFlight (core sb) + 1"
  by (simp add: timerCallback_def)

lemma simple_cycle_begins_iff:
  "(checksInFlight (core sb) < checksInFlight (core (simpleStep sb se)))
     = ((se = SetupValidated \<and> 0 < startsValidating sb)
        \<or> (\<exists>t. se = Shared (TimerFires t) \<and> t \<in> set (timers (core sb))))"
proof (cases se)
  case (Shared e)
  show ?thesis
  proof (cases "e = StartCalled")
    case True
    then show ?thesis using Shared by (simp add: simple_start_enter_def)
  next
    case False
    then have "simpleStep sb (Shared e) = sb\<lparr>core := step (core sb) e\<rparr>"
      by (cases e) simp_all
    then show ?thesis
      using Shared False cycle_begins_iff [of "core sb" e] by simp
  qed
next
  case SetupValidated
  then show ?thesis by (simp add: simple_start_validated_def)
next
  case SetupRejected
  then show ?thesis by (simp add: simple_start_rejected_def)
qed

lemma simple_tick_without_timer:
  "timers (core sb) = [] \<Longrightarrow> simpleStep sb (Shared (TimerFires t)) = sb"
  by simp

lemma simple_no_timer_before_completion:
  "timers (core sb) = [] \<Longrightarrow> Shared InitialCheckDone \<notin> set ses
   \<Longrightarrow> timers (core (foldl simpleStep sb ses)) = []"
proof (induction ses arbitrary: sb)
  case Nil
  then show ?case by simp
next
  case (Cons se ses)
  have "timers (core (simpleStep sb se)) = []"
  proof (cases se)
    case (Shared e)
    then have "e \<noteq> InitialCheckDone" using Cons.prems by auto
    then show ?thesis
      using Shared Cons.prems(1)
      by (cases e) (auto simp: simple_start_enter_def timerCallback_def checkCompleted_def
                          stop_def split: option.splits)
  next
    case SetupValidated
    then show ?thesis using Cons.prems(1) by (simp add: simple_start_validated_def)
  next
    case SetupRejected
    then show ?thesis using Cons.prems(1) by (simp add: simple_start_rejected_def)
  qed
  then show ?case
    using Cons.IH [of "simpleStep sb se"] Cons.prems by simp
qed

text \<open>
  C9, as the code has it.  Neither variant of the bot keeps an in-flight guard: a tick
  of an armed timer begins a new check cycle whatever is still in flight.  A cycle
  begins exactly at a tick of an armed timer or when a \<open>start\<close> passes its guard: in
  \<open>bot.ts\<close> at the call on a bot that is not running, in the simple bot when
  \<open>validateSetup()\<close> resolves, the flag not being looked at again.  \<open>start\<close> arms its
  timer only when its initial cycle has completed: while no timer is armed a tick does
  nothing, and from a bot with no timer armed none gets armed, so that no tick begins
  a cycle, until an initial cycle completes.  With a timer left armed this fails: a
  \<open>stop\<close> that arrives during the initial cycle clears nothing, and the timer armed
  afterwards ticks into the initial cycle of the next \<open>start\<close>; and two calls of the
  simple bot's \<open>start\<close> that are not awaited both begin an initial cycle.
\<close>

theorem cycles_begin_unguarded:
  "(t \<in> set (timers b) \<longrightarrow> checksInFlight (step b (TimerFires t)) = checksInFlight b + 1)
   \<and> (checksInFlight b < checksInFlight (step b e))
       = ((e = StartCalled \<and> \<not> isRunning b) \<or> (\<exists>u. e = TimerFires u \<and> u \<in> set (timers b)))
   \<and> (timers b = [] \<longrightarrow> step b (TimerFires t) = b)
   \<and> (timers b = [] \<and> InitialCheckDone \<notin> set es \<longrightarrow>
        timers (foldl step b es) = [] \<and> foldl step b (es @ [TimerFires t]) = foldl step b es)
   \<and> checksInFlight (foldl step newBot
         [StartCalled, StopCalled, InitialCheckDone, StartCalled, TimerFires 0]) = 2
   \<and> (t \<in> set (timers (core sb)) \<longrightarrow>
        checksInFlight (core (simpleStep sb (Shared (TimerFires t)))) = checksInFlight (core sb) + 1)
   \<and> (checksInFlight (core sb) < checksInFlight (core (simpleStep sb se)))
       = ((se = SetupValidated \<and> 0 < startsValidating sb)
          \<or> (\<exists>u. se = Shared (TimerFires u) \<and> u \<in> set (timers (core sb))))
   \<and> (timers (core sb) = [] \<longrightarrow> simpleStep sb (Shared (TimerFires t)) = sb)
   \<and> (timers (core sb) = [] \<and> Shared InitialCheckDone \<notin> set ses \<longrightarrow>
        timers (core (foldl simpleStep sb ses)) = []
        \<and> foldl simpleStep sb (ses @ [Shared (TimerFires t)]) = foldl simpleStep sb ses)
   \<and> checksInFlight (core (foldl simpleStep newSimpleBot
         [Shared StartCalled, Shared StartCalled, SetupValidated, SetupValidated])) = 2"
proof -
  have a: "timers b = [] \<and> InitialCheckDone \<notin> set es \<longrightarrow>
        timers (foldl step b es) = [] \<and> foldl step b (es @ [TimerFires t]) = foldl step b es"
    using no_timer_before_completion [of b es] by simp
  have s: "timers (core sb) = [] \<and> Shared InitialCheckDone \<notin> set ses \<longrightarrow>
        timers (core (foldl simpleStep sb ses)) = []
        \<and> foldl simpleStep sb (ses @ [Shared (TimerFires t)]) = foldl simpleStep sb ses"
    using simple_no_timer_before_completion [of sb ses] by simp
  have r: "checksInFlight (foldl step newBot
         [StartCalled, StopCalled, InitialCheckDone, StartCalled, TimerFires 0]) = 2"
    by (simp add: newBot_def start_enter_def start_resume_def stop_def timerCallback_def)
  have v: "checksInFlight (core (foldl simpleStep newSimpleBot
         [Shared StartCalled, Shared StartCalled, SetupValidated, SetupValidated])) = 2"
    by (simp add: newSimpleBot_def newBot_def simple_start_enter_def simple_start_validated_def)
  show ?thesis
    using a s r v tick_begins_cycle [of t b] cycle_begins_iff [of b e]
      simple_tick_begins_cycle [of t sb] simple_cycle_begins_iff [of sb se]
    by simp
qed

text \<open>
  A third tick while two checks are in flight begins a third; between \<open>start\<close> and the
  completion of its initial check a tick changes nothing, in either variant.
\<close>

theorem cycles_begin_unguarded_witness:
  "checksInFlight (foldl step newBot
       [StartCalled, InitialCheckDone, TimerFires 0, TimerFires 0, TimerFires 0]) = 3
   \<and> foldl step newBot [StartCalled, TimerFires 0, StopCalled, StartCalled, TimerFires 0]
       = foldl step newBot [StartCalled, TimerFires 0, StopCalled, StartCalled]
   \<and> checksInFlight (core (foldl simpleStep newSimpleBot
        [Shared StartCalled, SetupValidated, Shared InitialCheckDone,
         Shared (TimerFires 0), Shared (TimerFires 0)])) = 2
   \<and> foldl simpleStep newSimpleBot [Shared StartCalled, SetupValidated, Shared (TimerFires 0)]
       = foldl simpleStep newSimpleBot [Shared StartCalled, SetupValidated]"
  using cycles_begin_unguarded
    [where t = 0
       and b = "foldl step newBot [StartCalled, InitialCheckDone, TimerFires 0, TimerFires 0]"
       and e = "TimerFires 0" and es = "[]"
       and sb = "foldl simpleStep newSimpleBot
                   [Shared StartCalled, SetupValidated, Shared InitialCheckDone,
                    Shared (TimerFires 0)]"
       and se = "Shared (TimerFires 0)" and ses = "[]"]
    cycles_begin_unguarded
    [where t = 0 and b = newBot and e = StartCalled
       and es = "[StartCalled, TimerFires 0, StopCalled, StartCalled]"
       and sb = newSimpleBot and se = SetupValidated
       and ses = "[Shared StartCalled, SetupValidated]"]
  by (simp add: newBot_def newSimpleBot_def start_enter_def start_resume_def stop_def
        timerCallback_def simple_start_enter_def simple_start_validated_def)

text \<open>
  The timer fires twice while the check begun by the first tick is still awaiting the
  ledger: two checks are in flight.
\<close>

theorem cycles_overlap_counterexample:
  "checksInFlight (foldl step newBot [StartCalled, InitialCheckDone, TimerFires 0, TimerFires 0]) = 2"
  by (simp add: newBot_def start_enter_def start_resume_def timerCallback_def)

text \<open>
  Two calls of the simple bot's \<open>start\<close> that are not awaited arm two timers, of which
  \<open>stop\<close> can clear only the one the bot remembers.
\<close>

lemma simple_starts_arm_two_timers:
  "timers (core (foldl simpleStep newSimpleBot
      [Shared StartCalled, Shared StartCalled, SetupValidated, SetupValidated,
       Shared InitialCheckDone, Shared InitialCheckDone])) = [0, 1]
   \<and> timers (core (foldl simpleStep newSimpleBot
      [Shared StartCalled, Shared StartCalled, SetupValidated, SetupValidated,
       Shared InitialCheckDone, Shared InitialCheckDone, Shared StopCalled])) = [0]"
  by (simp add: newSimpleBot_def newBot_def simple_start_enter_def simple_start_validated_def
        start_resume_def stop_def)

section \<open>Lifecycle\<close>

lemma start_running: "isRunning (start b)"
  by (simp add: start_def start_enter_def start_resume_def)

lemma stop_not_running: "\<not> isRunning (stop b)"
  by (simp add: stop_def split: option.splits)

lemma running_last_effective:
  "isRunning (foldl perform b cs)
     = (case lastEffective b cs of Some c \<Rightarrow> c = Start | None \<Rightarrow> isRunning b)"
proof (induction cs arbitrary: b)
  case Nil
  show ?case by simp
next
  case (Cons c cs)
  show ?case
  proof (cases "lastEffective (perform b c) cs")
    case (Some c')
    then show ?thesis using Cons.IH [of "perform b c"] by simp
  next
    case None
    then have run: "isRunning (foldl perform b (c # cs)) = isRunning (perform b c)"
      using Cons.IH [of "perform b c"] by simp
    show ?thesis
    proof (cases "perform b c = b")
      case True
      then show ?thesis using None run by simp
    next
      case False
      then show ?thesis using None run
        by (cases c) (simp_all add: start_running stop_not_running)
    qed
  qed
qed

lemma running_last_call:
  "isRunning (foldl perform b cs) = (if cs = [] then isRunning b else last cs = Start)"
proof (induction cs arbitrary: b)
  case Nil
  show ?case by simp
next
  case (Cons c cs)
  show ?case
    using Cons.IH [of "perform b c"]
    by (cases c) (simp_all add: start_running stop_not_running)
qed

lemma tidy_perform: "tidy b \<Longrightarrow> tidy (perform b c)"
  by (cases c)
     (auto simp: tidy_def start_def start_enter_def start_resume_def stop_def
           split: option.splits)

lemma tidy_run: "tidy b \<Longrightarrow> tidy (foldl perform b cs)"
  by (induction cs arbitrary: b) (simp_all add: tidy_perform)

lemma one_timer_when_running:
  "length (timers (foldl perform newBot cs)) = (if isRunning (foldl perform newBot cs) then 1 else 0)"
proof -
  have "tidy newBot" by (simp add: tidy_def newBot_def)
  then have "tidy (foldl perform newBot cs)" by (rule tidy_run)
  then show ?thesis by (auto simp: tidy_def split: option.splits)
qed

text \<open>
  C10. \<open>start\<close> on a running bot changes nothing, so no second timer is armed, and the
  status stays running; \<open>stop\<close> on a stopped bot changes nothing and the status stays
  stopped.  After any sequence of awaited \<open>start\<close> and \<open>stop\<close> calls on a new bot the
  status is running exactly when the last call that changed the bot was \<open>start\<close>,
  which is when the last call was \<open>start\<close>; and exactly one timer is armed when the
  bot is running, none otherwise.
\<close>

theorem lifecycle_idempotent:
  "(isRunning b \<longrightarrow> start b = b \<and> getStatus_running (start b))
   \<and> (\<not> isRunning b \<longrightarrow> stop b = b \<and> \<not> getStatus_running (stop b))
   \<and> getStatus_running (start b) \<and> \<not> getStatus_running (stop b)
   \<and> getStatus_running (foldl perform newBot cs) = (lastEffective newBot cs = Some Start)
   \<and> getStatus_running (foldl perform newBot cs) = (cs \<noteq> [] \<and> last cs = Start)
   \<and> length (timers (foldl perform newBot cs))
       = (if getStatus_running (foldl perform newBot cs) then 1 else 0)"
proof -
  have a: "isRunning b \<longrightarrow> start b = b"
    by (simp add: start_def start_enter_def)
  have b: "\<not> isRunning b \<longrightarrow> stop b = b"
    by (simp add: stop_def)
  have c: "isRunning (foldl perform newBot cs) = (lastEffective newBot cs = Some Start)"
    using running_last_effective [of newBot cs]
    by (simp add: newBot_def split: option.splits)
  have d: "isRunning (foldl perform newBot cs) = (cs \<noteq> [] \<and> last cs = Start)"
    using running_last_call [of newBot cs] by (simp add: newBot_def)
  show ?thesis
    using a b c d one_timer_when_running [of cs] start_running [of b] stop_not_running [of b]
    by (simp add: getStatus_running_def)
qed

text \<open>
  A new bot that is started twice keeps one timer; a bot that is started, stopped twice
  and started again is running.
\<close>

theorem lifecycle_idempotent_witness:
  "start (start newBot) = start newBot \<and> getStatus_running (start (start newBot))
   \<and> stop newBot = newBot \<and> \<not> getStatus_running (stop newBot)
   \<and> getStatus_running (foldl perform newBot [Start, Start, Stop, Stop, Start])
   \<and> \<not> getStatus_running (foldl perform newBot [Start, Stop, Stop])
   \<and> timers (foldl perform newBot [Start, Start]) = [0]"
  using lifecycle_idempotent [of "start newBot" "[Start, Start, Stop, Stop, Start]"]
        lifecycle_idempotent [of newBot "[Start, Stop, Stop]"]
        lifecycle_idempotent [of newBot "[Start, Start]"]
  by (simp add: newBot_def start_def start_enter_def start_resume_def stop_def
        getStatus_running_def)

text \<open>
  Calls that are not awaited are outside the statement above: a \<open>stop\<close> that arrives
  while \<open>start\<close> still awaits its initial check finds no timer to clear, and the timer
  that \<open>start\<close> arms afterwards stays armed on a bot that reports not running.
\<close>

lemma stop_during_initial_check:
  "timers (foldl step newBot [StartCalled, StopCalled, InitialCheckDone]) = [0]
   \<and> \<not> getStatus_running (foldl step newBot [StartCalled, StopCalled, InitialCheckDone])"
  by (simp add: newBot_def start_enter_def start_resume_def stop_def getStatus_running_def)

end
